theory Spec2Isabelle
  imports Complex_Main "HOL-Library.AList" "HOL-Library.Sublist"
begin

section \<open>Python strings\<close>

text \<open>
  A Python \<open>str\<close> is a sequence of Unicode code points, and \<open>len\<close>, slicing, \<open>strip\<close>
  and \<open>startswith\<close> count code points. A HOL \<open>char\<close> is a byte, so a \<open>str\<close> is modelled
  as the list of its code points: the bullet U+2022 and the degree sign U+00B0 are one
  element each. \<open>ascii\<close> embeds an ASCII literal.
\<close>

type_synonym ustr = "nat list"

definition ascii :: "string \<Rightarrow> ustr" where
  "ascii s = map of_char s"

definition nl :: ustr where
  "nl = [10]"

definition apostrophe :: ustr where
  "apostrophe = [39]"

definition bullet :: nat where
  "bullet = 8226"

definition hyphen :: nat where
  "hyphen = 45"

definition space :: nat where
  "space = 32"

definition degree :: nat where
  "degree = 176"

text \<open>\<open>sep.join(xs)\<close>.\<close>

fun join :: "ustr \<Rightarrow> ustr list \<Rightarrow> ustr" where
  "join sep [] = []"
| "join sep [x] = x"
| "join sep (x # y # ys) = x @ sep @ join sep (y # ys)"

text \<open>\<open>s.split(d)\<close> for a one-character separator: never the empty list.\<close>

fun split :: "nat \<Rightarrow> ustr \<Rightarrow> ustr list" where
  "split d [] = [[]]"
| "split d (c # cs) =
     (if c = d then [] # split d cs
      else (case split d cs of [] \<Rightarrow> [[c]] | l # ls \<Rightarrow> (c # l) # ls))"

text \<open>
  \<open>str.isspace\<close> of one code point (the characters \<open>str.strip()\<close> removes):
  U+0009..U+000D, U+001C..U+0020, U+0085, U+00A0, U+1680, U+2000..U+200A, U+2028,
  U+2029, U+202F, U+205F, U+3000.
\<close>

definition isspace :: "nat \<Rightarrow> bool" where
  "isspace c \<longleftrightarrow>
     (9 \<le> c \<and> c \<le> 13) \<or> (28 \<le> c \<and> c \<le> 32) \<or> c = 133 \<or> c = 160 \<or> c = 5760 \<or>
     (8192 \<le> c \<and> c \<le> 8202) \<or> c = 8232 \<or> c = 8233 \<or> c = 8239 \<or> c = 8287 \<or> c = 12288"

definition lstrip :: "ustr \<Rightarrow> ustr" where
  "lstrip s = dropWhile isspace s"

definition strip :: "ustr \<Rightarrow> ustr" where
  "strip s = rev (dropWhile isspace (rev (dropWhile isspace s)))"

text \<open>\<open>s.lstrip(chars)\<close>: drops every leading character that occurs in \<open>chars\<close>.\<close>

definition lstrip_chars :: "ustr \<Rightarrow> ustr \<Rightarrow> ustr" where
  "lstrip_chars chars s = dropWhile (\<lambda>c. c \<in> set chars) s"

text \<open>\<open>s.startswith(c)\<close> for a one-character prefix.\<close>

fun startswith :: "ustr \<Rightarrow> nat \<Rightarrow> bool" where
  "startswith [] c = False"
| "startswith (x # xs) c = (x = c)"

text \<open>\<open>str(n)\<close> of an integer.\<close>

fun str_nat :: "nat \<Rightarrow> ustr" where
  "str_nat n = (if n < 10 then [48 + n] else str_nat (n div 10) @ [48 + n mod 10])"

declare str_nat.simps [simp del]

definition str_int :: "int \<Rightarrow> ustr" where
  "str_int i = (if i < 0 then hyphen # str_nat (nat (- i)) else str_nat (nat i))"

text \<open>\<open>xs[:k]\<close>: a negative \<open>k\<close> counts from the end, and the slice never raises.\<close>

definition slice_to :: "'a list \<Rightarrow> int \<Rightarrow> 'a list" where
  "slice_to xs k = (if 0 \<le> k then take (nat k) xs else take (length xs - nat (- k)) xs)"

section \<open>Exceptions and the random source\<close>

text \<open>
  Every raise of the source is a value. \<open>CancelledError\<close> stands for the exceptions that
  derive from \<open>BaseException\<close> only (task cancellation, \<open>KeyboardInterrupt\<close>, \<open>SystemExit\<close>):
  \<open>except Exception\<close> does not catch them, a bare \<open>except:\<close> does.
\<close>

datatype py_exc =
    ValueError ustr
  | KeyError ustr
  | IndexError
  | AttributeError ustr
  | ValidationError ustr
  | RuntimeError ustr
  | CancelledError

fun is_Exception :: "py_exc \<Rightarrow> bool" where
  "is_Exception CancelledError = False"
| "is_Exception (ValueError m) = True"
| "is_Exception (KeyError m) = True"
| "is_Exception IndexError = True"
| "is_Exception (AttributeError m) = True"
| "is_Exception (ValidationError m) = True"
| "is_Exception (RuntimeError m) = True"

text \<open>
  The module \<open>random\<close> is a stream of raw draws, consumed from the front.
  \<open>randint a b\<close> is uniform on \<open>a..b\<close>; \<open>choice\<close> raises \<open>IndexError\<close> on an empty sequence.
\<close>

type_synonym rng = "nat \<Rightarrow> nat"

definition advance :: "rng \<Rightarrow> rng" where
  "advance g = (\<lambda>i. g (Suc i))"

definition randint :: "int \<Rightarrow> int \<Rightarrow> rng \<Rightarrow> int \<times> rng" where
  "randint a b g = (a + int (g 0 mod nat (b - a + 1)), advance g)"

definition choice :: "'a list \<Rightarrow> rng \<Rightarrow> (py_exc + 'a) \<times> rng" where
  "choice xs g =
     (case xs of [] \<Rightarrow> (Inl IndexError, g)
      | _ # _ \<Rightarrow> (Inr (xs ! (g 0 mod length xs)), advance g))"

section \<open>tool\_usage.py: get\_weather\<close>

definition conditions :: "ustr list" where
  "conditions = [ascii ''Sunny'', ascii ''Cloudy'', ascii ''Rainy'', ascii ''Partly Cloudy'']"

definition get_weather :: "ustr \<Rightarrow> rng \<Rightarrow> (py_exc + ustr) \<times> rng" where
  "get_weather city g =
     (case randint 15 30 g of (temp, g1) \<Rightarrow>
        (case choice conditions g1 of
           (Inl e, g2) \<Rightarrow> (Inl e, g2)
         | (Inr cond, g2) \<Rightarrow>
             (Inr (city @ ascii '': '' @ cond @ ascii '', '' @ str_int temp @ [degree] @ ascii ''C''),
              g2)))"

section \<open>research\_assistant.py: the research tools\<close>

definition papers :: "ustr \<Rightarrow> ustr list" where
  "papers topic =
     [apostrophe @ topic @ apostrophe @ ascii '' - Comprehensive Review (2024)'',
      ascii ''Advances in '' @ topic @ ascii '': Recent Developments (2023)'',
      ascii ''Understanding '' @ topic @ ascii '': A Practical Guide (2024)'',
      topic @ ascii '' Applications in Industry (2023)'',
      ascii ''Future of '' @ topic @ ascii '': Predictions and Trends (2024)'']"

definition search_papers :: "ustr \<Rightarrow> int \<Rightarrow> ustr" where
  "search_papers topic limit =
     ascii ''Found '' @ str_nat (length (slice_to (papers topic) limit)) @ ascii '' papers:'' @ nl
       @ join nl (slice_to (papers topic) limit)"


text \<open>
  Library functions of Python that the tools call and whose tables are not part of the
  repository: \<open>str.lower\<close> (Unicode case mapping) and the \<open>str()\<close> of a dict.
\<close>

datatype pyval = PStr ustr | PInt int

type_synonym args = "(ustr \<times> pyval) list"

record pylib =
  str_lower :: "ustr \<Rightarrow> ustr"
  dict_repr :: "args \<Rightarrow> ustr"

definition get_statistics :: "ustr \<Rightarrow> rng \<Rightarrow> ustr \<times> rng" where
  "get_statistics topic g =
     (case randint 10 50 g of (growth, g1) \<Rightarrow>
      case randint 30 80 g1 of (adoption, g2) \<Rightarrow>
      case randint 1 10 g2 of (investment, g3) \<Rightarrow>
      case randint 1000 5000 g3 of (published, g4) \<Rightarrow>
        (ascii ''Statistics for '' @ topic @ ascii '':'' @ nl
           @ ascii ''    - Annual growth rate: '' @ str_int growth @ ascii ''%'' @ nl
           @ ascii ''    - Industry adoption: '' @ str_int adoption @ ascii ''%'' @ nl
           @ ascii ''    - Investment (billions): $'' @ str_int investment @ ascii ''B'' @ nl
           @ ascii ''    - Research papers published (2023): '' @ str_int published,
         g4))"

definition opinions :: "ustr \<Rightarrow> (ustr \<times> ustr) list" where
  "opinions topic =
     [(ascii ''ai'',
       ascii ''AI will transform every industry, but ethical considerations are crucial.''),
      (ascii ''blockchain'',
       ascii ''Blockchain'' @ apostrophe @ ascii ''s real value lies in transparency and decentralization.''),
      (ascii ''quantum'',
       ascii ''Quantum computing will revolutionize cryptography and drug discovery.''),
      (ascii ''default'',
       topic @ ascii '' shows promising potential but requires careful implementation.'')]"

fun first_opinion :: "ustr \<Rightarrow> (ustr \<times> ustr) list \<Rightarrow> ustr option" where
  "first_opinion lowered [] = None"
| "first_opinion lowered ((key, opinion) # rest) =
     (if sublist key lowered then Some opinion else first_opinion lowered rest)"

definition get_expert_opinion :: "pylib \<Rightarrow> ustr \<Rightarrow> ustr" where
  "get_expert_opinion lib topic =
     (case first_opinion (str_lower lib topic) (opinions topic) of
        Some opinion \<Rightarrow> ascii ''Expert opinion on '' @ topic @ ascii '': '' @ opinion
      | None \<Rightarrow>
          ascii ''Expert opinion on '' @ topic @ ascii '': ''
            @ topic @ ascii '' shows promising potential but requires careful implementation.'')"

text \<open>
  \<open>tool_fn.invoke(args)\<close>: the \<open>@tool\<close> decorator checks the argument dict against the
  signature before the body runs. A missing or ill-typed argument raises a validation
  error; a missing \<open>limit\<close> takes the default of the signature.
\<close>

type_synonym tool = "args \<Rightarrow> rng \<Rightarrow> (py_exc + ustr) \<times> rng"

definition arg_str :: "args \<Rightarrow> ustr \<Rightarrow> py_exc + ustr" where
  "arg_str a k = (case map_of a k of Some (PStr s) \<Rightarrow> Inr s | _ \<Rightarrow> Inl (ValidationError k))"

definition arg_int :: "args \<Rightarrow> ustr \<Rightarrow> int \<Rightarrow> py_exc + int" where
  "arg_int a k d =
     (case map_of a k of None \<Rightarrow> Inr d | Some (PInt i) \<Rightarrow> Inr i
      | Some (PStr s) \<Rightarrow> Inl (ValidationError k))"

definition search_papers_tool :: tool where
  "search_papers_tool a g =
     (case arg_str a (ascii ''topic'') of Inl e \<Rightarrow> (Inl e, g)
      | Inr topic \<Rightarrow>
          (case arg_int a (ascii ''limit'') 5 of Inl e \<Rightarrow> (Inl e, g)
           | Inr limit \<Rightarrow> (Inr (search_papers topic limit), g)))"

definition get_statistics_tool :: tool where
  "get_statistics_tool a g =
     (case arg_str a (ascii ''topic'') of Inl e \<Rightarrow> (Inl e, g)
      | Inr topic \<Rightarrow> (case get_statistics topic g of (text, g') \<Rightarrow> (Inr text, g')))"

definition get_expert_opinion_tool :: "pylib \<Rightarrow> tool" where
  "get_expert_opinion_tool lib a g =
     (case arg_str a (ascii ''topic'') of Inl e \<Rightarrow> (Inl e, g)
      | Inr topic \<Rightarrow> (Inr (get_expert_opinion lib topic), g))"

text \<open>
  \<open>globals()[name]\<close> in research\_assistant.py: an unbound name is a \<open>KeyError\<close>
  (\<open>None\<close> here); a name bound to something that is not a tool has no \<open>invoke\<close>.
\<close>

definition other_globals :: "ustr list" where
  "other_globals = map ascii
     [''Dict'', ''List'', ''Optional'', ''datetime'', ''BaseModel'', ''Field'', ''tool'',
      ''ChatPromptTemplate'', ''HumanMessage'', ''ToolMessage'', ''BaseChatModel'',
      ''PydanticOutputParser'', ''ResearchQuery'', ''ResearchResult'',
      ''MultiModelResearchAssistant'', ''demonstrate_research_assistant'',
      ''__name__'', ''__doc__'', ''__package__'', ''__loader__'', ''__spec__'',
      ''__file__'', ''__cached__'', ''__builtins__'']"

definition research_globals :: "pylib \<Rightarrow> ustr \<Rightarrow> tool option" where
  "research_globals lib nm =
     (if nm = ascii ''search_papers'' then Some search_papers_tool
      else if nm = ascii ''get_statistics'' then Some get_statistics_tool
      else if nm = ascii ''get_expert_opinion'' then Some (get_expert_opinion_tool lib)
      else if nm \<in> set other_globals then Some (\<lambda>a g. (Inl (AttributeError nm), g))
      else None)"

section \<open>Messages, model handles and the world\<close>

record tool_call =
  tc_name :: ustr
  tc_args :: args
  tc_id :: ustr

record ai_message =
  content :: ustr
  tool_calls :: "tool_call list"

datatype message =
    HumanMessage ustr
  | AIMessage ai_message
  | ToolMessage (tm_content: ustr) (tool_call_id: ustr)

text \<open>
  A model handle with tools bound answers a message list or raises. The provider is not
  a function of the prompt, so the answer may also depend on how many model calls the
  process has made so far. \<open>bind_tools\<close> of a handle returns the bound handle or raises.
\<close>

type_synonym bound_model = "message list \<Rightarrow> nat \<Rightarrow> py_exc + ai_message"

record chat_model =
  bind_tools :: "py_exc + bound_model"

datatype diag =
    ModelError ustr py_exc
  | Initialized ustr
  | InitFailed ustr py_exc

text \<open>
  The world outside the assistant: the random source, the log of the message lists sent
  to a model (one entry per call), what was printed, and the clock
  (\<open>datetime.now().isoformat()\<close>).
\<close>

record world =
  rng :: rng
  calls :: "message list list"
  stdout :: "diag list"
  now :: ustr

definition ainvoke :: "bound_model \<Rightarrow> message list \<Rightarrow> world \<Rightarrow> (py_exc + ai_message) \<times> world" where
  "ainvoke m msgs w = (m msgs (length (calls w)), w\<lparr>calls := calls w @ [msgs]\<rparr>)"

definition invoke :: "tool \<Rightarrow> args \<Rightarrow> world \<Rightarrow> (py_exc + ustr) \<times> world" where
  "invoke t a w = (case t a (rng w) of (r, g) \<Rightarrow> (r, w\<lparr>rng := g\<rparr>))"


section \<open>research\_assistant.py: MultiModelResearchAssistant\<close>

record ResearchQuery =
  topic :: ustr
  depth :: ustr
  focus_areas :: "ustr list"

record research_result =
  result_topic :: ustr
  summary :: ustr
  key_findings :: "ustr list"
  sources_consulted :: "ustr list"
  confidence_score :: real
  model_used :: ustr
  timestamp :: ustr

text \<open>
  Constructing a \<open>ResearchResult\<close> validates the declared bound \<open>ge=0, le=1\<close> of
  \<open>confidence_score\<close>; a violation raises.
\<close>

definition ResearchResult ::
  "ustr \<Rightarrow> ustr \<Rightarrow> ustr list \<Rightarrow> ustr list \<Rightarrow> real \<Rightarrow> ustr \<Rightarrow> ustr \<Rightarrow> py_exc + research_result" where
  "ResearchResult t s kf src c m ts =
     (if 0 \<le> c \<and> c \<le> 1
      then Inr \<lparr>result_topic = t, summary = s, key_findings = kf, sources_consulted = src,
                confidence_score = c, model_used = m, timestamp = ts\<rparr>
      else Inl (ValidationError (ascii ''confidence_score'')))"

text \<open>
  A dict keeps insertion order: it is an association list, and \<open>d[k] = v\<close> is
  \<open>AList.update\<close> (replace in place, or append). The prompt table maps a depth to its
  template; a template is the function that \<open>format_messages\<close> computes from
  \<open>topic\<close> and \<open>focus_areas\<close>.
\<close>

record assistant =
  models :: "(ustr \<times> chat_model) list"
  tool_models :: "(ustr \<times> bound_model) list"
  prompts :: "(ustr \<times> (ustr \<Rightarrow> ustr \<Rightarrow> ustr)) list"

definition indent :: ustr where
  "indent = replicate 12 space"

definition research_prompts :: "(ustr \<times> (ustr \<Rightarrow> ustr \<Rightarrow> ustr)) list" where
  "research_prompts =
     [(ascii ''quick'', \<lambda>t f.
         ascii ''Provide a brief overview of '' @ t @ ascii ''. Focus on: '' @ f),
      (ascii ''moderate'', \<lambda>t f.
         ascii ''Research '' @ t @ ascii '' comprehensively.'' @ nl
           @ indent @ ascii ''Focus areas: '' @ f @ nl
           @ indent @ ascii ''Use available tools to gather information.'' @ nl
           @ indent @ ascii ''Provide a balanced analysis.''),
      (ascii ''deep'', \<lambda>t f.
         ascii ''Conduct thorough research on '' @ t @ ascii ''.'' @ nl
           @ indent @ ascii ''Focus areas: '' @ f @ nl
           @ indent @ ascii ''Use all available tools to gather data, statistics, and expert opinions.'' @ nl
           @ indent @ ascii ''Provide a detailed analysis with multiple perspectives.'')]"

text \<open>The constructor: the bare \<open>except: pass\<close> drops every model whose \<open>bind_tools\<close> raises.\<close>

fun bind_all ::
  "(ustr \<times> chat_model) list \<Rightarrow> (ustr \<times> bound_model) list \<Rightarrow> (ustr \<times> bound_model) list" where
  "bind_all [] tm = tm"
| "bind_all ((n, m) # ms) tm =
     (case bind_tools m of
        Inr b \<Rightarrow> bind_all ms (AList.update n b tm)
      | Inl e \<Rightarrow> bind_all ms tm)"

definition MultiModelResearchAssistant :: "(ustr \<times> chat_model) list \<Rightarrow> assistant" where
  "MultiModelResearchAssistant ms =
     \<lparr>models = ms, tool_models = bind_all ms [], prompts = research_prompts\<rparr>"

subsection \<open>Model selection\<close>

text \<open>The \<open>for preferred in [...]\<close> loop with its \<open>break\<close>; \<open>None\<close> is the \<open>else\<close> branch.\<close>

fun preferred_model :: "ustr list \<Rightarrow> (ustr \<times> 'm) list \<Rightarrow> (ustr \<times> 'm) option" where
  "preferred_model [] tm = None"
| "preferred_model (p # ps) tm =
     (case map_of tm p of Some m \<Rightarrow> Some (p, m) | None \<Rightarrow> preferred_model ps tm)"

text \<open>\<open>model_name and model_name in self.tool_models\<close>: \<open>None\<close> and \<open>""\<close> are falsy.\<close>

definition named_model :: "(ustr \<times> 'm) list \<Rightarrow> ustr option \<Rightarrow> (ustr \<times> 'm) option" where
  "named_model tm model_name =
     (case model_name of
        None \<Rightarrow> None
      | Some n \<Rightarrow> (if n = [] then None
                   else (case map_of tm n of Some m \<Rightarrow> Some (n, m) | None \<Rightarrow> None)))"

definition select_model :: "(ustr \<times> 'm) list \<Rightarrow> ustr option \<Rightarrow> py_exc + (ustr \<times> 'm)" where
  "select_model tm model_name =
     (case named_model tm model_name of
        Some nm \<Rightarrow> Inr nm
      | None \<Rightarrow>
          (case tm of
             first # rest \<Rightarrow>
               (case preferred_model [ascii ''openai'', ascii ''anthropic''] tm of
                  Some nm \<Rightarrow> Inr nm
                | None \<Rightarrow> Inr first)
           | [] \<Rightarrow> Inl (ValueError (ascii ''No tool-capable models available''))))"

subsection \<open>The tool loop\<close>

definition source_entry :: "pylib \<Rightarrow> tool_call \<Rightarrow> ustr" where
  "source_entry lib tc = tc_name tc @ ascii ''('' @ dict_repr lib (tc_args tc) @ ascii '')''"

text \<open>
  \<open>for tool_call in response.tool_calls\<close>: each request is looked up in \<open>globals()\<close> and
  invoked, and its result appended as a \<open>ToolMessage\<close>. Nothing in the loop catches: the
  first lookup or invocation that raises ends the loop and the call of \<open>research\<close>.
\<close>

fun run_tool_calls ::
  "pylib \<Rightarrow> (ustr \<Rightarrow> tool option) \<Rightarrow> tool_call list \<Rightarrow> ustr list \<Rightarrow> message list \<Rightarrow> world
     \<Rightarrow> (py_exc + ustr list \<times> message list) \<times> world" where
  "run_tool_calls lib glob [] sources messages w = (Inr (sources, messages), w)"
| "run_tool_calls lib glob (tc # tcs) sources messages w =
     (case glob (tc_name tc) of
        None \<Rightarrow> (Inl (KeyError (tc_name tc)), w)
      | Some tool_fn \<Rightarrow>
          (case invoke tool_fn (tc_args tc) w of
             (Inl e, w') \<Rightarrow> (Inl e, w')
           | (Inr result, w') \<Rightarrow>
               run_tool_calls lib glob tcs (sources @ [source_entry lib tc])
                 (messages @ [ToolMessage result (tc_id tc)]) w'))"

subsection \<open>Output shaping\<close>

definition is_bullet_line :: "ustr \<Rightarrow> bool" where
  "is_bullet_line line \<longleftrightarrow>
     strip line \<noteq> [] \<and> (startswith (strip line) hyphen \<or> startswith (strip line) bullet)"

definition extract_key_findings :: "ustr \<Rightarrow> ustr list" where
  "extract_key_findings text =
     take 5 (map (\<lambda>line. lstrip_chars [hyphen, space, bullet] (strip line))
               (filter is_bullet_line (split 10 text)))"

definition summarize :: "ustr \<Rightarrow> ustr" where
  "summarize text = (if length text > 500 then take 500 text @ ascii ''...'' else text)"

definition build_result ::
  "ResearchQuery \<Rightarrow> ustr \<Rightarrow> ustr list \<Rightarrow> ustr \<Rightarrow> world \<Rightarrow> py_exc + research_result" where
  "build_result query text sources used_model w =
     ResearchResult (topic query) (summarize text)
       (if extract_key_findings text \<noteq> [] then extract_key_findings text
        else [ascii ''Research completed''])
       (if sources \<noteq> [] then sources else [ascii ''Direct model knowledge''])
       (if sources \<noteq> [] then 0.85 else 0.75)
       used_model (now w)"

subsection \<open>research\<close>

definition focus_areas_str :: "ResearchQuery \<Rightarrow> ustr" where
  "focus_areas_str query =
     (if focus_areas query \<noteq> [] then join (ascii '', '') (focus_areas query)
      else ascii ''general overview'')"

definition research ::
  "pylib \<Rightarrow> (ustr \<Rightarrow> tool option) \<Rightarrow> assistant \<Rightarrow> ResearchQuery \<Rightarrow> ustr option \<Rightarrow> world
     \<Rightarrow> (py_exc + research_result) \<times> world" where
  "research lib glob self query model_name w =
     (case select_model (tool_models self) model_name of
        Inl e \<Rightarrow> (Inl e, w)
      | Inr (used_model, model) \<Rightarrow>
     (case map_of (prompts self) (depth query) of
        None \<Rightarrow> (Inl (KeyError (depth query)), w)
      | Some template \<Rightarrow>
     (let messages = [HumanMessage (template (topic query) (focus_areas_str query))] in
      case ainvoke model messages w of
        (Inl e, w1) \<Rightarrow> (Inl e, w1)
      | (Inr response, w1) \<Rightarrow>
     (let messages = messages @ [AIMessage response] in
      if tool_calls response \<noteq> [] then
        (case run_tool_calls lib glob (tool_calls response) [] messages w1 of
           (Inl e, w2) \<Rightarrow> (Inl e, w2)
         | (Inr (sources, messages), w2) \<Rightarrow>
             (case ainvoke model messages w2 of
                (Inl e, w3) \<Rightarrow> (Inl e, w3)
              | (Inr final, w3) \<Rightarrow>
                  (build_result query (content final) sources used_model w3, w3)))
      else (build_result query (content response) [] used_model w1, w1)))))"

subsection \<open>compare\_models\<close>



section \<open>config.py: ModelConfig\<close>

record ModelConfig =
  provider :: ustr
  openai_api_key :: "ustr option"
  anthropic_api_key :: "ustr option"
  openai_model :: ustr
  anthropic_model :: ustr
  ollama_model :: ustr
  ollama_base_url :: ustr

text \<open>The handles that \<open>get_model\<close> constructs, with the arguments it passes.\<close>

datatype provider_model =
    ChatOpenAI ustr ustr real
  | ChatAnthropic ustr ustr real
  | ChatOllama ustr ustr real

text \<open>\<open>not key\<close>: an unset variable (\<open>None\<close>) and an empty one are both absent.\<close>

definition truthy :: "ustr option \<Rightarrow> ustr option" where
  "truthy k = (case k of None \<Rightarrow> None | Some s \<Rightarrow> (if s = [] then None else Some s))"

definition get_model :: "ModelConfig \<Rightarrow> ustr option \<Rightarrow> real \<Rightarrow> py_exc + provider_model" where
  "get_model self provider_arg temperature =
     (let p = (case truthy provider_arg of Some p' \<Rightarrow> p' | None \<Rightarrow> provider self) in
      if p = ascii ''openai'' then
        (case truthy (openai_api_key self) of
           None \<Rightarrow> Inl (ValueError (ascii ''OPENAI_API_KEY not set in environment''))
         | Some k \<Rightarrow> Inr (ChatOpenAI k (openai_model self) temperature))
      else if p = ascii ''anthropic'' then
        (case truthy (anthropic_api_key self) of
           None \<Rightarrow> Inl (ValueError (ascii ''ANTHROPIC_API_KEY not set in environment''))
         | Some k \<Rightarrow> Inr (ChatAnthropic k (anthropic_model self) temperature))
      else if p = ascii ''ollama'' then
        Inr (ChatOllama (ollama_model self) (ollama_base_url self) temperature)
      else Inl (ValueError (ascii ''Unknown provider: '' @ p)))"

definition all_providers :: "ustr list" where
  "all_providers = [ascii ''openai'', ascii ''anthropic'', ascii ''ollama'']"

fun get_all_loop ::
  "ModelConfig \<Rightarrow> ustr list \<Rightarrow> (ustr \<times> provider_model) list \<Rightarrow> diag list
     \<Rightarrow> (py_exc + (ustr \<times> provider_model) list) \<times> diag list" where
  "get_all_loop self [] ms out = (Inr ms, out)"
| "get_all_loop self (p # ps) ms out =
     (case get_model self (Some p) 0.7 of
        Inr m \<Rightarrow> get_all_loop self ps (AList.update p m ms) (out @ [Initialized p])
      | Inl e \<Rightarrow>
          (if is_Exception e then get_all_loop self ps ms (out @ [InitFailed p e])
           else (Inl e, out)))"

definition get_all_models ::
  "ModelConfig \<Rightarrow> (py_exc + (ustr \<times> provider_model) list) \<times> diag list" where
  "get_all_models self = get_all_loop self all_providers [] []"

section \<open>The specification's wording of the output shaping\<close>

text \<open>
  Key findings as the specification words them: the lines that begin with a bullet marker,
  each without its marker (and the blanks around it), at most five.
\<close>

definition spec_key_findings :: "ustr \<Rightarrow> ustr list" where
  "spec_key_findings text =
     take 5 (map (\<lambda>line. strip (tl (strip line))) (filter is_bullet_line (split 10 text)))"

text \<open>
  The amended wording: a line counts when, trimmed of surrounding whitespace, it begins
  with \<open>-\<close> or the bullet; its finding is the trimmed line without the whole leading run
  of hyphens, spaces and bullets.
\<close>

fun begins_with_marker :: "ustr \<Rightarrow> bool" where
  "begins_with_marker [] = False"
| "begins_with_marker (c # cs) = (c = hyphen \<or> c = bullet)"

fun strip_markers :: "ustr \<Rightarrow> ustr" where
  "strip_markers [] = []"
| "strip_markers (c # cs) =
     (if c = hyphen \<or> c = space \<or> c = bullet then strip_markers cs else c # cs)"

definition amended_key_findings :: "ustr \<Rightarrow> ustr list" where
  "amended_key_findings text =
     take 5 (map strip_markers (filter begins_with_marker (map strip (split 10 text))))"

section \<open>The specification's wording of the provider set\<close>

text \<open>
  A provider has its required credential when its API key is set and not empty; the local
  provider \<open>ollama\<close> requires none.
\<close>

definition has_credential :: "ModelConfig \<Rightarrow> ustr \<Rightarrow> bool" where
  "has_credential self p \<longleftrightarrow>
     (if p = ascii ''openai'' then truthy (openai_api_key self) \<noteq> None
      else if p = ascii ''anthropic'' then truthy (anthropic_api_key self) \<noteq> None
      else p = ascii ''ollama'')"

definition example_config :: "ustr option \<Rightarrow> ustr option \<Rightarrow> ModelConfig" where
  "example_config okey akey =
     \<lparr>provider = ascii ''openai'', openai_api_key = okey, anthropic_api_key = akey,
      openai_model = ascii ''gpt-4.1-2025-04-14'',
      anthropic_model = ascii ''claude-sonnet-4-20250514'',
      ollama_model = ascii ''gemma3:27b'',
      ollama_base_url = ascii ''http://localhost:11434''\<rparr>"

section \<open>Example inputs\<close>

text \<open>
  Concrete inputs on which the theorems below are evaluated: a library instance whose
  \<open>lower\<close> maps the ASCII letters only, a world with nothing logged yet, model handles
  that answer the first call with one message and every later call with another, a handle
  whose calls fail, and a model without tool support.
\<close>

definition example_lib :: pylib where
  "example_lib =
     \<lparr>str_lower = map (\<lambda>c. if 65 \<le> c \<and> c \<le> 90 then c + 32 else c),
      dict_repr = (\<lambda>a. ascii ''{...}'')\<rparr>"

definition example_world :: world where
  "example_world =
     \<lparr>rng = (\<lambda>i. 7 * i + 3), calls = [], stdout = [], now = ascii ''2025-06-01T12:00:00''\<rparr>"

definition replying :: "ai_message \<Rightarrow> ai_message \<Rightarrow> bound_model" where
  "replying first final msgs k = Inr (if length msgs \<le> 1 then first else final)"


definition with_tools :: "bound_model \<Rightarrow> chat_model" where
  "with_tools b = \<lparr>bind_tools = Inr b\<rparr>"

definition without_tools :: chat_model where
  "without_tools = \<lparr>bind_tools = Inl (RuntimeError (ascii ''bind_tools is not supported''))\<rparr>"

definition plain_answer :: "ustr \<Rightarrow> ai_message" where
  "plain_answer text = \<lparr>content = text, tool_calls = []\<rparr>"

definition tool_request :: "ustr \<Rightarrow> ustr \<Rightarrow> ustr \<Rightarrow> ai_message" where
  "tool_request nm subject ident =
     \<lparr>content = [],
      tool_calls = [\<lparr>tc_name = nm, tc_args = [(ascii ''topic'', PStr subject)], tc_id = ident\<rparr>]\<rparr>"

definition example_query :: "ustr \<Rightarrow> ResearchQuery" where
  "example_query d = \<lparr>topic = ascii ''AI Safety'', depth = d, focus_areas = [ascii ''alignment'']\<rparr>"


section \<open>Properties of the tools\<close>

lemma ascii_eq_iff [simp]: "ascii a = ascii b \<longleftrightarrow> a = b"
proof -
  have "inj (of_char :: char \<Rightarrow> nat)" by (rule inj_of_char)
  then show ?thesis unfolding ascii_def by (rule inj_map_eq_map)
qed

lemma choice_nth:
  "xs \<noteq> [] \<Longrightarrow> choice xs g = (Inr (xs ! (g 0 mod length xs)), advance g)"
  by (cases xs) (simp_all add: choice_def)

lemma length_conditions: "length conditions = 4"
  by (simp add: conditions_def)

lemma advance_twice: "advance (advance g) i = g (i + 2)"
  by (simp add: advance_def)

lemma get_weather_eq:
  "get_weather city g =
     (Inr (city @ ascii '': '' @ conditions ! (g 1 mod 4) @ ascii '', ''
             @ str_int (15 + int (g 0 mod 16)) @ [degree] @ ascii ''C''),
      advance (advance g))"
proof -
  have "conditions \<noteq> []" by (simp add: conditions_def)
  from choice_nth [OF this, of "advance g"]
  show ?thesis
    by (simp add: get_weather_def randint_def length_conditions advance_def)
qed

text \<open>
  Claim C7. For every city and every state of the random source, \<open>get_weather\<close> returns
  (it does not raise) the text \<open>city: condition, temperature\<close> followed by the degree sign
  and \<open>C\<close>. The temperature is the first draw, mapped into the fixed range 15 to 30; the
  condition is the second draw's pick among the four fixed conditions; the call consumes
  exactly these two draws, so a repeated call reads the next two. Hence the text always
  starts with, and so contains, the city name and contains the degree sign; and there is a
  random source on which two successive calls report different conditions and different
  temperatures.
\<close>

theorem get_weather_text:
  "(\<exists>cond temp text.
       get_weather city g = (Inr text, advance (advance g))
     \<and> text = city @ ascii '': '' @ cond @ ascii '', '' @ str_int temp @ [degree] @ ascii ''C''
     \<and> cond = conditions ! (g 1 mod 4) \<and> cond \<in> set conditions
     \<and> temp = 15 + int (g 0 mod 16) \<and> 15 \<le> temp \<and> temp \<le> 30
     \<and> prefix city text \<and> sublist city text \<and> sublist [degree] text)
   \<and> (\<exists>g1 g2 g3 c1 t1 c2 t2.
         get_weather city g1
           = (Inr (city @ ascii '': '' @ c1 @ ascii '', '' @ str_int t1 @ [degree] @ ascii ''C''), g2)
       \<and> get_weather city g2
           = (Inr (city @ ascii '': '' @ c2 @ ascii '', '' @ str_int t2 @ [degree] @ ascii ''C''), g3)
       \<and> c1 \<noteq> c2 \<and> t1 \<noteq> t2)"
proof (rule conjI)
  let ?cond = "conditions ! (g 1 mod 4)"
  let ?temp = "15 + int (g 0 mod 16)"
  let ?text = "city @ ascii '': '' @ ?cond @ ascii '', '' @ str_int ?temp @ [degree] @ ascii ''C''"
  have "g 1 mod 4 < length conditions" by (simp add: length_conditions)
  then have mem: "?cond \<in> set conditions" by (rule nth_mem)
  have deg: "sublist [degree] ?text"
    using sublist_appendI [of "[degree]" "city @ ascii '': '' @ ?cond @ ascii '', '' @ str_int ?temp" "ascii ''C''"]
    by simp
  have t: "15 \<le> ?temp \<and> ?temp \<le> 30" by simp
  have p: "prefix city ?text" by simp
  have s: "sublist city ?text" by simp
  show "\<exists>cond temp text.
       get_weather city g = (Inr text, advance (advance g))
     \<and> text = city @ ascii '': '' @ cond @ ascii '', '' @ str_int temp @ [degree] @ ascii ''C''
     \<and> cond = conditions ! (g 1 mod 4) \<and> cond \<in> set conditions
     \<and> temp = 15 + int (g 0 mod 16) \<and> 15 \<le> temp \<and> temp \<le> 30
     \<and> prefix city text \<and> sublist city text \<and> sublist [degree] text"
    apply (rule exI [of _ ?cond])
    apply (rule exI [of _ ?temp])
    apply (rule exI [of _ ?text])
    apply (intro conjI get_weather_eq refl mem deg p s)
    using t by simp_all
next
  let ?g = "\<lambda>i::nat. if i < 2 then 0 else (1::nat)"
  let ?mk = "\<lambda>c t. city @ ascii '': '' @ c @ ascii '', '' @ str_int t @ [degree] @ ascii ''C''"
  have a: "get_weather city ?g = (Inr (?mk (ascii ''Sunny'') 15), advance (advance ?g))"
    by (simp add: get_weather_eq conditions_def)
  have b: "get_weather city (advance (advance ?g))
             = (Inr (?mk (ascii ''Cloudy'') 16), advance (advance (advance (advance ?g))))"
    by (simp add: get_weather_eq [of city "advance (advance ?g)"] advance_twice conditions_def)
  have c: "ascii ''Sunny'' \<noteq> ascii ''Cloudy''" by simp
  have d: "(15::int) \<noteq> 16" by simp
  from a b c d show "\<exists>g1 g2 g3 c1 t1 c2 t2.
         get_weather city g1
           = (Inr (city @ ascii '': '' @ c1 @ ascii '', '' @ str_int t1 @ [degree] @ ascii ''C''), g2)
       \<and> get_weather city g2
           = (Inr (city @ ascii '': '' @ c2 @ ascii '', '' @ str_int t2 @ [degree] @ ascii ''C''), g3)
       \<and> c1 \<noteq> c2 \<and> t1 \<noteq> t2"
    by blast
qed

theorem get_weather_text_witness:
  "\<exists>text. get_weather (ascii ''London'') (\<lambda>i. 7 * i + 3)
       = (Inr text, advance (advance (\<lambda>i. 7 * i + 3)))
     \<and> text = ascii ''London'' @ ascii '': '' @ ascii ''Rainy'' @ ascii '', '' @ str_int 18
                @ [degree] @ ascii ''C''
     \<and> sublist (ascii ''London'') text \<and> sublist [degree] text"
proof -
  from get_weather_text [of "ascii ''London''" "\<lambda>i. 7 * i + 3", THEN conjunct1]
  obtain cond temp report where
    g: "get_weather (ascii ''London'') (\<lambda>i. 7 * i + 3) = (Inr report, advance (advance (\<lambda>i. 7 * i + 3)))" and
    t: "report = ascii ''London'' @ ascii '': '' @ cond @ ascii '', '' @ str_int temp @ [degree] @ ascii ''C''" and
    c: "cond = conditions ! ((7 * 1 + 3) mod 4)" and
    tm: "temp = 15 + int ((7 * 0 + 3) mod 16)" and
    s: "sublist (ascii ''London'') report" "sublist [degree] report"
    by blast
  from c have c': "cond = ascii ''Rainy''" by (simp add: conditions_def)
  from tm have tm': "temp = 18" by simp
  from g t s show ?thesis unfolding c' tm' by blast
qed

lemma topic_in_papers: "t \<in> set (papers tp) \<Longrightarrow> sublist tp t"
proof -
  have mid: "sublist tp (p @ tp @ s)" for p s :: ustr by (rule sublist_appendI)
  assume "t \<in> set (papers tp)"
  then consider
      "t = apostrophe @ tp @ apostrophe @ ascii '' - Comprehensive Review (2024)''"
    | "t = ascii ''Advances in '' @ tp @ ascii '': Recent Developments (2023)''"
    | "t = ascii ''Understanding '' @ tp @ ascii '': A Practical Guide (2024)''"
    | "t = tp @ ascii '' Applications in Industry (2023)''"
    | "t = ascii ''Future of '' @ tp @ ascii '': Predictions and Trends (2024)''"
    by (auto simp: papers_def)
  then show ?thesis
  proof cases
    case 4 then show ?thesis by simp
  qed (simp_all only: mid)
qed

lemma length_papers: "length (papers tp) = 5"
  by (simp add: papers_def)

text \<open>
  For every topic and every limit that is not negative, \<open>search_papers\<close> returns the
  header \<open>Found k papers:\<close> followed by the first \<open>k\<close> of the five synthetic titles, one
  per line, with \<open>k = min limit 5\<close>; each title contains the topic; the result is a
  function of topic and limit alone; and a call without \<open>limit\<close> uses 5.
\<close>

theorem search_papers_limit:
  assumes "0 \<le> limit"
  shows "search_papers tp limit =
           ascii ''Found '' @ str_nat (nat (min limit 5)) @ ascii '' papers:'' @ nl
             @ join nl (take (nat limit) (papers tp))
         \<and> int (length (take (nat limit) (papers tp))) = min limit 5
         \<and> (\<forall>t \<in> set (take (nat limit) (papers tp)). sublist tp t)
         \<and> search_papers_tool [(ascii ''topic'', PStr tp)] g = (Inr (search_papers tp 5), g)"
proof -
  have len: "int (length (take (nat limit) (papers tp))) = min limit 5"
    using assms by (auto simp add: length_papers min_def)
  then have len': "length (take (nat limit) (papers tp)) = nat (min limit 5)" by linarith
  have "search_papers tp limit =
           ascii ''Found '' @ str_nat (nat (min limit 5)) @ ascii '' papers:'' @ nl
             @ join nl (take (nat limit) (papers tp))"
    using assms unfolding search_papers_def slice_to_def len' [symmetric] by simp
  moreover have "\<forall>t \<in> set (take (nat limit) (papers tp)). sublist tp t"
    using topic_in_papers in_set_takeD by fast
  moreover have "search_papers_tool [(ascii ''topic'', PStr tp)] g = (Inr (search_papers tp 5), g)"
    by (simp add: search_papers_tool_def arg_str_def arg_int_def ascii_def)
  ultimately show ?thesis using len by blast
qed

theorem search_papers_limit_witness:
  "(0::int) \<le> 2 \<and> search_papers (ascii ''AI'') 2 =
     ascii ''Found '' @ str_nat 2 @ ascii '' papers:'' @ nl
       @ (apostrophe @ ascii ''AI'' @ apostrophe @ ascii '' - Comprehensive Review (2024)'')
       @ nl @ (ascii ''Advances in '' @ ascii ''AI'' @ ascii '': Recent Developments (2023)'')"
  using search_papers_limit [of 2 "ascii ''AI''"]
  by (simp add: papers_def numeral_2_eq_2)

text \<open>
  Claim C6. The docstring of \<open>search_papers\<close> calls \<open>limit\<close> the maximum number of
  results, and the claim promises exactly \<open>limit\<close> titles, clamped to the five available.
  The slice \<open>papers[:limit]\<close> is not guarded against a negative limit: \<open>papers[:-1]\<close> drops
  the last title only, so the limit \<open>-1\<close> answers \<open>Found 4 papers:\<close> with the first
  four titles, exactly what the limit 4 answers.
\<close>

theorem search_papers_negative_limit:
  "search_papers (ascii ''AI'') (- 1) =
     ascii ''Found '' @ str_nat 4 @ ascii '' papers:'' @ nl
       @ join nl (take 4 (papers (ascii ''AI'')))
   \<and> length (take 4 (papers (ascii ''AI''))) = 4
   \<and> search_papers (ascii ''AI'') (- 1) = search_papers (ascii ''AI'') 4
   \<and> search_papers_tool [(ascii ''topic'', PStr (ascii ''AI'')), (ascii ''limit'', PInt (- 1))] g
       = (Inr (search_papers (ascii ''AI'') (- 1)), g)"
proof -
  have s1: "slice_to (papers (ascii ''AI'')) (- 1) = take 4 (papers (ascii ''AI''))"
    by (simp add: slice_to_def length_papers)
  have s4: "slice_to (papers (ascii ''AI'')) 4 = take 4 (papers (ascii ''AI''))"
    by (simp add: slice_to_def)
  have l: "length (take 4 (papers (ascii ''AI''))) = 4"
    by (simp add: length_papers)
  have t: "search_papers_tool [(ascii ''topic'', PStr (ascii ''AI'')), (ascii ''limit'', PInt (- 1))] g
       = (Inr (search_papers (ascii ''AI'') (- 1)), g)"
    by (simp add: search_papers_tool_def arg_str_def arg_int_def)
  show ?thesis
    unfolding search_papers_def s1 s4 l using t [unfolded search_papers_def s1 l] by simp
qed

section \<open>Output shaping\<close>

lemma lstrip_chars_markers: "lstrip_chars [hyphen, space, bullet] s = strip_markers s"
  by (induction s) (auto simp: lstrip_chars_def)

lemma is_bullet_line_iff: "is_bullet_line line \<longleftrightarrow> begins_with_marker (strip line)"
  by (cases "strip line") (simp_all add: is_bullet_line_def)

lemma extract_amended: "extract_key_findings text = amended_key_findings text"
proof -
  have "filter begins_with_marker (map strip ls) = map strip (filter is_bullet_line ls)" for ls
    by (induction ls) (simp_all add: is_bullet_line_iff)
  then show ?thesis
    by (simp add: extract_key_findings_def amended_key_findings_def lstrip_chars_markers comp_def)
qed

text \<open>
  Claim C5 (amended). For every response text, the extracted key findings are, in order,
  the first five of the lines that begin with \<open>-\<close> or the bullet once trimmed of
  surrounding whitespace, each trimmed and without its whole leading run of hyphens,
  spaces and bullets; the result's \<open>key_findings\<close> is that list (or the fallback entry if
  it is empty); and its \<open>summary\<close> is the text when it has at most 500 characters,
  otherwise its first 500 characters followed by \<open>...\<close>.
\<close>

theorem research_output_shaping:
  "extract_key_findings text = amended_key_findings text
   \<and> length (extract_key_findings text) \<le> 5
   \<and> (\<exists>r. build_result query text sources used w = Inr r
          \<and> summary r = (if length text \<le> 500 then text else take 500 text @ ascii ''...'')
          \<and> key_findings r = (if amended_key_findings text = [] then [ascii ''Research completed'']
                              else amended_key_findings text))"
proof -
  have "length (extract_key_findings text) \<le> 5"
    by (simp add: extract_key_findings_def)
  moreover have "\<exists>r. build_result query text sources used w = Inr r
          \<and> summary r = (if length text \<le> 500 then text else take 500 text @ ascii ''...'')
          \<and> key_findings r = (if amended_key_findings text = [] then [ascii ''Research completed'']
                              else amended_key_findings text)"
    by (simp add: build_result_def ResearchResult_def summarize_def extract_amended)
  ultimately show ?thesis using extract_amended by blast
qed

theorem research_output_shaping_witness:
  "extract_key_findings (ascii ''Intro'' @ nl @ ascii '' - a'' @ nl @ [bullet] @ ascii '' b '')
     = [ascii ''a'', ascii ''b'']"
  using research_output_shaping [of "ascii ''Intro'' @ nl @ ascii '' - a'' @ nl @ [bullet] @ ascii '' b ''"]
  by (simp add: amended_key_findings_def ascii_def nl_def bullet_def hyphen_def space_def
        strip_def isspace_def)

text \<open>
  Claim C5 as stated fails: \<open>lstrip\<close> with the characters hyphen, space and bullet
  removes more than the marker. The line \<open>- -3 C\<close> yields the finding \<open>3 C\<close>; without
  its marker the line reads \<open>-3 C\<close>.
\<close>

theorem key_findings_marker_counterexample:
  "extract_key_findings (ascii ''- -3 C'') = [ascii ''3 C'']
   \<and> spec_key_findings (ascii ''- -3 C'') = [ascii ''-3 C'']"
  by (simp add: extract_key_findings_def spec_key_findings_def is_bullet_line_def lstrip_chars_def
        ascii_def bullet_def hyphen_def space_def strip_def isspace_def)

section \<open>Provider configuration\<close>

lemma ascii_Nil_iff [simp]: "ascii s = [] \<longleftrightarrow> s = []" "[] = ascii s \<longleftrightarrow> s = []"
  by (auto simp: ascii_def)

lemma truthy_Some [simp]: "s \<noteq> [] \<Longrightarrow> truthy (Some s) = Some s"
  by (simp add: truthy_def)

lemma get_model_cases:
  "get_model self (Some (ascii ''openai'')) t =
     (case truthy (openai_api_key self) of
        None \<Rightarrow> Inl (ValueError (ascii ''OPENAI_API_KEY not set in environment''))
      | Some k \<Rightarrow> Inr (ChatOpenAI k (openai_model self) t))"
  "get_model self (Some (ascii ''anthropic'')) t =
     (case truthy (anthropic_api_key self) of
        None \<Rightarrow> Inl (ValueError (ascii ''ANTHROPIC_API_KEY not set in environment''))
      | Some k \<Rightarrow> Inr (ChatAnthropic k (anthropic_model self) t))"
  "get_model self (Some (ascii ''ollama'')) t =
     Inr (ChatOllama (ollama_model self) (ollama_base_url self) t)"
  by (simp_all add: get_model_def)

lemma get_model_default:
  "get_model self None t = get_model self (Some (provider self)) t"
  "get_model self (Some []) t = get_model self (Some (provider self)) t"
  by (simp_all add: get_model_def truthy_def)

text \<open>
  Claim C4. \<open>get_all_models\<close> always returns (it never raises); the providers in the
  returned dict are, in order, exactly those of \<open>openai\<close>, \<open>anthropic\<close>, \<open>ollama\<close> that
  have their required credential, each bound to the handle \<open>get_model\<close> builds for it, and
  one diagnostic is printed per provider; whereas \<open>get_model\<close> for a provider whose key
  is absent raises \<open>ValueError\<close>, also when that provider is the configured default.
\<close>

theorem get_all_models_omits:
  "(\<exists>ms out. get_all_models self = (Inr ms, out)
       \<and> map fst ms = filter (has_credential self) all_providers
       \<and> (\<forall>(p, m) \<in> set ms. get_model self (Some p) 0.7 = Inr m)
       \<and> length out = 3)
   \<and> (truthy (openai_api_key self) = None \<longrightarrow>
        get_model self (Some (ascii ''openai'')) t
          = Inl (ValueError (ascii ''OPENAI_API_KEY not set in environment''))
        \<and> (provider self = ascii ''openai'' \<longrightarrow> get_model self None t
          = Inl (ValueError (ascii ''OPENAI_API_KEY not set in environment''))))
   \<and> (truthy (anthropic_api_key self) = None \<longrightarrow>
        get_model self (Some (ascii ''anthropic'')) t
          = Inl (ValueError (ascii ''ANTHROPIC_API_KEY not set in environment''))
        \<and> (provider self = ascii ''anthropic'' \<longrightarrow> get_model self None t
          = Inl (ValueError (ascii ''ANTHROPIC_API_KEY not set in environment''))))"
proof -
  have "\<exists>ms out. get_all_models self = (Inr ms, out)
       \<and> map fst ms = filter (has_credential self) all_providers
       \<and> (\<forall>(p, m) \<in> set ms. get_model self (Some p) 0.7 = Inr m) \<and> length out = 3"
    by (cases "truthy (openai_api_key self)"; cases "truthy (anthropic_api_key self)")
       (simp_all add: get_all_models_def all_providers_def get_model_cases has_credential_def)
  then show ?thesis by (simp add: get_model_cases get_model_default)
qed

theorem get_all_models_omits_witness:
  "(\<exists>ms out. get_all_models (example_config None (Some (ascii ''sk-test''))) = (Inr ms, out)
      \<and> map fst ms = [ascii ''anthropic'', ascii ''ollama''])
   \<and> get_model (example_config None (Some (ascii ''sk-test''))) None 0.7
       = Inl (ValueError (ascii ''OPENAI_API_KEY not set in environment''))
   \<and> (\<exists>ms out. get_all_models (example_config (Some (ascii ''sk-test'')) (Some [])) = (Inr ms, out)
      \<and> map fst ms = [ascii ''openai'', ascii ''ollama''])
   \<and> get_model (example_config (Some (ascii ''sk-test'')) (Some [])) (Some (ascii ''anthropic'')) 0.7
       = Inl (ValueError (ascii ''ANTHROPIC_API_KEY not set in environment''))"
proof -
  let ?c1 = "example_config None (Some (ascii ''sk-test''))"
  let ?c2 = "example_config (Some (ascii ''sk-test'')) (Some [])"
  have f1: "filter (has_credential ?c1) all_providers = [ascii ''anthropic'', ascii ''ollama'']"
    by (simp add: example_config_def has_credential_def all_providers_def truthy_def)
  have f2: "filter (has_credential ?c2) all_providers = [ascii ''openai'', ascii ''ollama'']"
    by (simp add: example_config_def has_credential_def all_providers_def truthy_def)
  have t1: "truthy (openai_api_key ?c1) = None" "provider ?c1 = ascii ''openai''"
    by (simp_all add: example_config_def truthy_def)
  have t2: "truthy (anthropic_api_key ?c2) = None"
    by (simp add: example_config_def truthy_def)
  note w1 = get_all_models_omits [of ?c1 "0.7"] and w2 = get_all_models_omits [of ?c2 "0.7"]
  note e1 = w1 [THEN conjunct1] and e2 = w2 [THEN conjunct1]
  note r1 = w1 [THEN conjunct2, THEN conjunct1, rule_format, OF t1(1), THEN conjunct2, rule_format, OF t1(2)]
  note r2 = w2 [THEN conjunct2, THEN conjunct2, rule_format, OF t2, THEN conjunct1]
  from e1 obtain ms1 out1 where "get_all_models ?c1 = (Inr ms1, out1)"
      "map fst ms1 = filter (has_credential ?c1) all_providers"
    by (elim exE conjE)
  then have "\<exists>ms out. get_all_models ?c1 = (Inr ms, out)
      \<and> map fst ms = [ascii ''anthropic'', ascii ''ollama'']"
    unfolding f1 by (intro exI conjI)
  moreover have "get_model ?c1 None 0.7
       = Inl (ValueError (ascii ''OPENAI_API_KEY not set in environment''))"
    by (rule r1)
  moreover from e2 obtain ms2 out2 where "get_all_models ?c2 = (Inr ms2, out2)"
      "map fst ms2 = filter (has_credential ?c2) all_providers"
    by (elim exE conjE)
  then have "\<exists>ms out. get_all_models ?c2 = (Inr ms, out)
      \<and> map fst ms = [ascii ''openai'', ascii ''ollama'']"
    unfolding f2 by (intro exI conjI)
  moreover have "get_model ?c2 (Some (ascii ''anthropic'')) 0.7
       = Inl (ValueError (ascii ''ANTHROPIC_API_KEY not set in environment''))"
    by (rule r2)
  ultimately show ?thesis by (intro conjI)
qed

section \<open>Model selection\<close>

lemma bind_all_none:
  "(\<forall>(n, m) \<in> set ms. \<exists>e. bind_tools m = Inl e) \<Longrightarrow> bind_all ms tm = tm"
  by (induction ms tm rule: bind_all.induct) auto

lemma named_model_None_iff:
  "named_model tm model_name = None \<longleftrightarrow>
     \<not> (\<exists>n. model_name = Some n \<and> n \<noteq> [] \<and> n \<in> fst ` set tm)"
  by (auto simp: named_model_def map_of_eq_None_iff [symmetric] split: option.splits)

lemma select_model_unnamed:
  "named_model tm model_name = None \<Longrightarrow>
   select_model tm model_name =
     (case map_of tm (ascii ''openai'') of Some m \<Rightarrow> Inr (ascii ''openai'', m)
      | None \<Rightarrow>
         (case map_of tm (ascii ''anthropic'') of Some m \<Rightarrow> Inr (ascii ''anthropic'', m)
          | None \<Rightarrow>
             (case tm of [] \<Rightarrow> Inl (ValueError (ascii ''No tool-capable models available''))
              | first # rest \<Rightarrow> Inr first)))"
  by (cases tm; cases "map_of tm (ascii ''openai'')"; cases "map_of tm (ascii ''anthropic'')")
     (simp_all add: select_model_def del: map_of.simps)

text \<open>
  Claim C3. A model name that is given (not \<open>None\<close>, not empty) and bound to a tool-capable
  model selects that model. Otherwise \<open>openai\<close> is selected if tool-capable, else
  \<open>anthropic\<close> if tool-capable, else the first remaining tool-capable model in dict order;
  with no tool-capable model the selection raises \<open>ValueError\<close>, \<open>research\<close> raises it
  without calling a model or producing a result, and that is the case whenever
  \<open>bind_tools\<close> raises for every model handed to the constructor.
\<close>

theorem select_model_policy:
  "(model_name = Some n \<and> n \<noteq> [] \<and> map_of tm n = Some m \<longrightarrow>
      select_model tm model_name = Inr (n, m))
   \<and> (\<not> (\<exists>n. model_name = Some n \<and> n \<noteq> [] \<and> n \<in> fst ` set tm) \<longrightarrow>
        (map_of tm (ascii ''openai'') = Some m \<longrightarrow>
           select_model tm model_name = Inr (ascii ''openai'', m))
      \<and> (map_of tm (ascii ''openai'') = None \<and> map_of tm (ascii ''anthropic'') = Some m \<longrightarrow>
           select_model tm model_name = Inr (ascii ''anthropic'', m))
      \<and> (map_of tm (ascii ''openai'') = None \<and> map_of tm (ascii ''anthropic'') = None
           \<and> tm = first # rest \<longrightarrow> select_model tm model_name = Inr first)
      \<and> (tm = [] \<longrightarrow>
           select_model tm model_name = Inl (ValueError (ascii ''No tool-capable models available''))))
   \<and> (tool_models self = [] \<longrightarrow>
        research lib glob self query model_name w
          = (Inl (ValueError (ascii ''No tool-capable models available'')), w))
   \<and> ((\<forall>(k, c) \<in> set ms. \<exists>e. bind_tools c = Inl e) \<longrightarrow>
        tool_models (MultiModelResearchAssistant ms) = [])"
proof (intro conjI impI)
  assume "model_name = Some n \<and> n \<noteq> [] \<and> map_of tm n = Some m"
  then show "select_model tm model_name = Inr (n, m)"
    by (simp add: select_model_def named_model_def)
next
  assume "tool_models self = []"
  then show "research lib glob self query model_name w
          = (Inl (ValueError (ascii ''No tool-capable models available'')), w)"
    by (simp add: research_def select_model_def named_model_def split: option.splits)
next
  assume "\<forall>(k, c) \<in> set ms. \<exists>e. bind_tools c = Inl e"
  then show "tool_models (MultiModelResearchAssistant ms) = []"
    by (simp add: MultiModelResearchAssistant_def bind_all_none)
next
  assume a: "\<not> (\<exists>n. model_name = Some n \<and> n \<noteq> [] \<and> n \<in> fst ` set tm)"
  then have u: "named_model tm model_name = None" by (simp add: named_model_None_iff)
  note s = select_model_unnamed [OF u]
  { assume "map_of tm (ascii ''openai'') = Some m"
    then show "select_model tm model_name = Inr (ascii ''openai'', m)"
      unfolding s by simp }
  { assume "map_of tm (ascii ''openai'') = None \<and> map_of tm (ascii ''anthropic'') = Some m"
    then show "select_model tm model_name = Inr (ascii ''anthropic'', m)"
      unfolding s by simp }
  { assume "map_of tm (ascii ''openai'') = None \<and> map_of tm (ascii ''anthropic'') = None
           \<and> tm = first # rest"
    then have "map_of tm (ascii ''openai'') = None" "map_of tm (ascii ''anthropic'') = None"
        "tm = first # rest"
      by blast+
    then show "select_model tm model_name = Inr first"
      unfolding s by (simp only: option.case list.case) }
  { assume "tm = []"
    then show "select_model tm model_name = Inl (ValueError (ascii ''No tool-capable models available''))"
      unfolding s by simp }
qed


theorem select_model_policy_witness:
  "select_model [(ascii ''ollama'', 1::nat), (ascii ''anthropic'', 2)] (Some (ascii ''ollama''))
     = Inr (ascii ''ollama'', 1)
   \<and> select_model [(ascii ''ollama'', 1::nat), (ascii ''anthropic'', 2), (ascii ''openai'', 3)] None
     = Inr (ascii ''openai'', 3)
   \<and> select_model [(ascii ''ollama'', 1::nat), (ascii ''anthropic'', 2)] (Some (ascii ''openai''))
     = Inr (ascii ''anthropic'', 2)
   \<and> select_model [(ascii ''ollama'', 1::nat)] (Some []) = Inr (ascii ''ollama'', 1)
   \<and> select_model ([] :: (ustr \<times> nat) list) (Some (ascii ''openai''))
     = Inl (ValueError (ascii ''No tool-capable models available''))"
  using
    select_model_policy [where tm = "[(ascii ''ollama'', 1::nat), (ascii ''anthropic'', 2)]"
      and model_name = "Some (ascii ''ollama'')" and n = "ascii ''ollama''" and m = 1]
    select_model_policy [where tm = "[(ascii ''ollama'', 1::nat), (ascii ''anthropic'', 2), (ascii ''openai'', 3)]"
      and model_name = None and m = 3]
    select_model_policy [where tm = "[(ascii ''ollama'', 1::nat), (ascii ''anthropic'', 2)]"
      and model_name = "Some (ascii ''openai'')" and m = 2]
    select_model_policy [where tm = "[(ascii ''ollama'', 1::nat)]"
      and model_name = "Some []" and first = "(ascii ''ollama'', 1)" and rest = "[]"]
    select_model_policy [where tm = "[] :: (ustr \<times> nat) list"
      and model_name = "Some (ascii ''openai'')"]
  by simp

section \<open>The research loop\<close>

lemma ainvoke_world:
  "ainvoke m msgs w = (r, w') \<Longrightarrow>
     r = m msgs (length (calls w)) \<and> w' = w\<lparr>calls := calls w @ [msgs]\<rparr>"
  by (auto simp: ainvoke_def)

lemma invoke_world:
  "invoke t a w = (r, w') \<Longrightarrow> calls w' = calls w \<and> stdout w' = stdout w \<and> now w' = now w"
  by (auto simp: invoke_def split: prod.splits)

lemma run_tool_calls_world:
  "run_tool_calls lib glob tcs sources messages w = (r, w') \<Longrightarrow>
     calls w' = calls w \<and> stdout w' = stdout w \<and> now w' = now w"
proof (induction tcs arbitrary: sources messages w)
  case Nil
  then show ?case by simp
next
  case (Cons tc tcs)
  show ?case
  proof (cases "glob (tc_name tc)")
    case None
    with Cons.prems show ?thesis by simp
  next
    case (Some tool_fn)
    obtain x w1 where i: "invoke tool_fn (tc_args tc) w = (x, w1)" by (cases "invoke tool_fn (tc_args tc) w")
    note iw = invoke_world [OF i]
    show ?thesis
    proof (cases x)
      case (Inl e)
      with Cons.prems Some i iw show ?thesis by simp
    next
      case (Inr result)
      with Cons.prems Some i
      have "run_tool_calls lib glob tcs (sources @ [source_entry lib tc])
              (messages @ [ToolMessage result (tc_id tc)]) w1 = (r, w')"
        by simp
      from Cons.IH [OF this] iw show ?thesis by simp
    qed
  qed
qed

lemma run_tool_calls_result:
  "run_tool_calls lib glob tcs sources messages w = (Inr (sources', messages'), w') \<Longrightarrow>
     sources' = sources @ map (source_entry lib) tcs
     \<and> (\<exists>results. length results = length tcs
           \<and> messages' = messages @ map2 ToolMessage results (map tc_id tcs))"
proof (induction tcs arbitrary: sources messages w)
  case Nil
  then show ?case by simp
next
  case (Cons tc tcs)
  from Cons.prems obtain tool_fn where g: "glob (tc_name tc) = Some tool_fn"
    by (cases "glob (tc_name tc)") auto
  obtain x w1 where i: "invoke tool_fn (tc_args tc) w = (x, w1)" by (cases "invoke tool_fn (tc_args tc) w")
  with Cons.prems g obtain result where x: "x = Inr result" by (cases x) auto
  with Cons.prems g i
  have "run_tool_calls lib glob tcs (sources @ [source_entry lib tc])
          (messages @ [ToolMessage result (tc_id tc)]) w1 = (Inr (sources', messages'), w')"
    by simp
  from Cons.IH [OF this] obtain results where
    s: "sources' = (sources @ [source_entry lib tc]) @ map (source_entry lib) tcs" and
    l: "length results = length tcs" and
    m: "messages' = (messages @ [ToolMessage result (tc_id tc)]) @ map2 ToolMessage results (map tc_id tcs)"
    by blast
  from l m have "length (result # results) = length (tc # tcs)
      \<and> messages' = messages @ map2 ToolMessage (result # results) (map tc_id (tc # tcs))"
    by simp
  then have "\<exists>rs. length rs = length (tc # tcs)
      \<and> messages' = messages @ map2 ToolMessage rs (map tc_id (tc # tcs))"
    by (rule exI)
  moreover from s have "sources' = sources @ map (source_entry lib) (tc # tcs)" by simp
  ultimately show ?case by (rule conjI [rotated])
qed

lemma research_selected:
  assumes "select_model (tool_models self) model_name = Inr (used, model)"
      and "map_of (prompts self) (depth query) = Some template"
  shows "research lib glob self query model_name w =
     (let asked = [HumanMessage (template (topic query) (focus_areas_str query))];
          w1 = w\<lparr>calls := calls w @ [asked]\<rparr> in
      case model asked (length (calls w)) of
        Inl e \<Rightarrow> (Inl e, w1)
      | Inr response \<Rightarrow>
          if tool_calls response \<noteq> [] then
            (case run_tool_calls lib glob (tool_calls response) [] (asked @ [AIMessage response]) w1 of
               (Inl e, w2) \<Rightarrow> (Inl e, w2)
             | (Inr (sources, turn), w2) \<Rightarrow>
                 (case model turn (length (calls w2)) of
                    Inl e \<Rightarrow> (Inl e, w2\<lparr>calls := calls w2 @ [turn]\<rparr>)
                  | Inr final \<Rightarrow>
                      (build_result query (content final) sources used (w2\<lparr>calls := calls w2 @ [turn]\<rparr>),
                       w2\<lparr>calls := calls w2 @ [turn]\<rparr>)))
          else (build_result query (content response) [] used w1, w1))"
  by (simp add: research_def ainvoke_def assms Let_def split: sum.splits prod.splits)

lemma research_not_selected:
  "select_model (tool_models self) model_name = Inl e \<Longrightarrow>
     research lib glob self query model_name w = (Inl e, w)"
  by (simp add: research_def)

lemma research_no_template:
  "map_of (prompts self) (depth query) = None \<Longrightarrow>
     \<exists>e. research lib glob self query model_name w = (Inl e, w)
       \<and> (tool_models self \<noteq> [] \<longrightarrow> e = KeyError (depth query))"
  by (cases "select_model (tool_models self) model_name")
     (auto simp: research_def select_model_def split: option.splits list.splits)

lemma build_result_total:
  "\<exists>r. build_result query text sources used w = Inr r
     \<and> key_findings r = (if extract_key_findings text = [] then [ascii ''Research completed'']
                         else extract_key_findings text)
     \<and> sources_consulted r = (if sources = [] then [ascii ''Direct model knowledge''] else sources)
     \<and> confidence_score r = (if sources = [] then 0.75 else 0.85)
     \<and> model_used r = used \<and> result_topic r = topic query \<and> timestamp r = now w
     \<and> summary r = summarize text"
  by (simp add: build_result_def ResearchResult_def)


text \<open>
  Claim C8. A query whose depth is not a key of the prompt table makes \<open>research\<close> raise
  before any model call (the world is unchanged) and produce no result: with a
  tool-capable model the fault is the \<open>KeyError\<close> of the table lookup, and no default
  depth is substituted. The table of a constructed assistant has exactly the keys
  \<open>quick\<close>, \<open>moderate\<close>, \<open>deep\<close>.
\<close>

theorem research_unknown_depth:
  "(depth query \<notin> fst ` set (prompts self) \<longrightarrow>
      (\<exists>e. research lib glob self query model_name w = (Inl e, w)
         \<and> (tool_models self \<noteq> [] \<longrightarrow> e = KeyError (depth query))))
   \<and> fst ` set (prompts (MultiModelResearchAssistant ms))
       = {ascii ''quick'', ascii ''moderate'', ascii ''deep''}"
proof
  show "depth query \<notin> fst ` set (prompts self) \<longrightarrow>
      (\<exists>e. research lib glob self query model_name w = (Inl e, w)
         \<and> (tool_models self \<noteq> [] \<longrightarrow> e = KeyError (depth query)))"
    using research_no_template [of self query] by (simp add: map_of_eq_None_iff)
  show "fst ` set (prompts (MultiModelResearchAssistant ms))
       = {ascii ''quick'', ascii ''moderate'', ascii ''deep''}"
    by (simp add: MultiModelResearchAssistant_def research_prompts_def)
qed

theorem research_unknown_depth_witness:
  "research example_lib (research_globals example_lib)
     (MultiModelResearchAssistant
        [(ascii ''openai'', with_tools (replying (plain_answer []) (plain_answer [])))])
     (example_query (ascii ''exhaustive'')) None example_world
   = (Inl (KeyError (ascii ''exhaustive'')), example_world)"
proof -
  let ?a = "MultiModelResearchAssistant
        [(ascii ''openai'', with_tools (replying (plain_answer []) (plain_answer [])))]"
  let ?q = "example_query (ascii ''exhaustive'')"
  have k: "depth ?q \<notin> fst ` set (prompts ?a)"
    by (simp add: MultiModelResearchAssistant_def research_prompts_def example_query_def)
  have t: "tool_models ?a \<noteq> []"
    by (simp add: MultiModelResearchAssistant_def with_tools_def)
  have d: "depth ?q = ascii ''exhaustive''" by (simp add: example_query_def)
  from research_unknown_depth [of ?q ?a example_lib "research_globals example_lib" None example_world,
      THEN conjunct1, rule_format, OF k] t d
  show ?thesis by auto
qed

section \<open>The result record\<close>

text \<open>
  Claim C9. Every result that \<open>research\<close> returns has a non-empty \<open>key_findings\<close>: the
  findings extracted from the final response (the first response when it requested no
  tool, otherwise the answer to the follow-up call), or the single entry
  \<open>Research completed\<close> when none was extracted; a non-empty \<open>sources_consulted\<close>: one
  entry per tool request of the first response, or the single entry
  \<open>Direct model knowledge\<close> when it requested none; and a \<open>confidence_score\<close> of 0.85
  when tools were invoked and 0.75 otherwise, hence within the declared bound.
\<close>

theorem research_result_invariants:
  assumes "research lib glob self query model_name w = (Inr r, w')"
  shows "key_findings r \<noteq> [] \<and> sources_consulted r \<noteq> []
     \<and> 0 \<le> confidence_score r \<and> confidence_score r \<le> 1
     \<and> (\<exists>used model template asked response (final :: ai_message).
           select_model (tool_models self) model_name = Inr (used, model)
         \<and> map_of (prompts self) (depth query) = Some template
         \<and> asked = [HumanMessage (template (topic query) (focus_areas_str query))]
         \<and> model asked (length (calls w)) = Inr response
         \<and> (if tool_calls response = [] then final = response
             else \<exists>sources turn w2.
                    run_tool_calls lib glob (tool_calls response) [] (asked @ [AIMessage response])
                      (w\<lparr>calls := calls w @ [asked]\<rparr>) = (Inr (sources, turn), w2)
                  \<and> model turn (Suc (length (calls w))) = Inr final)
         \<and> sources_consulted r =
             (if tool_calls response = [] then [ascii ''Direct model knowledge'']
              else map (source_entry lib) (tool_calls response))
         \<and> confidence_score r = (if tool_calls response = [] then 0.75 else 0.85)
         \<and> key_findings r =
             (if extract_key_findings (content final) = [] then [ascii ''Research completed'']
              else extract_key_findings (content final)))"
proof -
  obtain used model where sel: "select_model (tool_models self) model_name = Inr (used, model)"
    using assms research_not_selected [of self model_name _ lib glob query w]
    by (cases "select_model (tool_models self) model_name") auto
  obtain template where tmpl: "map_of (prompts self) (depth query) = Some template"
    using assms research_no_template [of self query lib glob model_name w]
    by (cases "map_of (prompts self) (depth query)") auto
  let ?asked = "[HumanMessage (template (topic query) (focus_areas_str query))]"
  let ?w1 = "w\<lparr>calls := calls w @ [?asked]\<rparr>"
  note unfold = research_selected [OF sel tmpl, of lib glob w, unfolded Let_def]
  obtain response where first: "model ?asked (length (calls w)) = Inr response"
    using assms unfold by (cases "model ?asked (length (calls w))") auto
  have "\<exists>(final :: ai_message) sources. sources = map (source_entry lib) (tool_calls response)
          \<and> build_result query (content final) sources used w' = Inr r
          \<and> (if tool_calls response = [] then final = response
             else \<exists>sources turn w2.
                    run_tool_calls lib glob (tool_calls response) [] (?asked @ [AIMessage response])
                      ?w1 = (Inr (sources, turn), w2)
                  \<and> model turn (Suc (length (calls w))) = Inr final)"
  proof (cases "tool_calls response = []")
    case True
    with assms unfold first have "build_result query (content response) [] used w' = Inr r"
      by auto
    with True show ?thesis by auto
  next
    case False
    obtain x w2 where run: "run_tool_calls lib glob (tool_calls response) []
        (?asked @ [AIMessage response]) ?w1 = (x, w2)"
      by (cases "run_tool_calls lib glob (tool_calls response) [] (?asked @ [AIMessage response]) ?w1")
    with assms unfold first False obtain sources turn where x: "x = Inr (sources, turn)"
      by (cases x) auto
    from run_tool_calls_result [OF run [unfolded x]]
    have src: "sources = map (source_entry lib) (tool_calls response)" by simp
    from run_tool_calls_world [OF run] have c2: "length (calls w2) = Suc (length (calls w))"
      by simp
    from assms unfold first False run x obtain final where
      f: "model turn (length (calls w2)) = Inr final" and
      b: "build_result query (content final) sources used w' = Inr r"
      by (cases "model turn (length (calls w2))") auto
    from run x f c2 have "\<exists>sources turn w2.
                    run_tool_calls lib glob (tool_calls response) [] (?asked @ [AIMessage response])
                      ?w1 = (Inr (sources, turn), w2)
                  \<and> model turn (Suc (length (calls w))) = Inr final"
      by auto
    with src b False show ?thesis by auto
  qed
  then obtain final :: ai_message and sources where
    src: "sources = map (source_entry lib) (tool_calls response)" and
    res: "build_result query (content final) sources used w' = Inr r" and
    pin: "if tool_calls response = [] then final = response
             else \<exists>sources turn w2.
                    run_tool_calls lib glob (tool_calls response) [] (?asked @ [AIMessage response])
                      ?w1 = (Inr (sources, turn), w2)
                  \<and> model turn (Suc (length (calls w))) = Inr final"
    by blast
  from build_result_total [of query "content final" sources used w'] res
  have kf: "key_findings r = (if extract_key_findings (content final) = []
              then [ascii ''Research completed''] else extract_key_findings (content final))"
    and sc: "sources_consulted r = (if sources = [] then [ascii ''Direct model knowledge''] else sources)"
    and cs: "confidence_score r = (if sources = [] then 0.75 else 0.85)"
    by auto
  from sc src have sc': "sources_consulted r =
             (if tool_calls response = [] then [ascii ''Direct model knowledge'']
              else map (source_entry lib) (tool_calls response))"
    by simp
  from cs src have cs': "confidence_score r = (if tool_calls response = [] then 0.75 else 0.85)"
    by simp
  from kf have 1: "key_findings r \<noteq> []" by (simp split: if_splits)
  from sc' have 2: "sources_consulted r \<noteq> []" by (simp split: if_splits)
  from cs' have 3: "0 \<le> confidence_score r" "confidence_score r \<le> 1"
    by (simp_all split: if_splits)
  show ?thesis
    apply (intro conjI 1 2 3)
    apply (rule exI [of _ used])
    apply (rule exI [of _ model])
    apply (rule exI [of _ template])
    apply (rule exI [of _ ?asked])
    apply (rule exI [of _ response])
    apply (rule exI [of _ final])
    apply (intro conjI sel tmpl refl first pin sc' cs' kf)
    done
qed

lemma example_fallback_run:
  "\<exists>r w'. research example_lib (research_globals example_lib)
       (MultiModelResearchAssistant
          [(ascii ''openai'',
            with_tools (replying (tool_request (ascii ''search_papers'') (ascii ''AI'') (ascii ''call_1''))
                                 (plain_answer (ascii ''ok''))))])
       (example_query (ascii ''quick'')) None example_world = (Inr r, w')"
proof -
  let ?m = "replying (tool_request (ascii ''search_papers'') (ascii ''AI'') (ascii ''call_1''))
                                 (plain_answer (ascii ''ok''))"
  let ?a = "MultiModelResearchAssistant [(ascii ''openai'', with_tools ?m)]"
  let ?q = "example_query (ascii ''quick'')"
  have sel: "select_model (tool_models ?a) None = Inr (ascii ''openai'', ?m)"
    by (simp add: MultiModelResearchAssistant_def with_tools_def select_model_def named_model_def)
  have tmpl: "map_of (prompts ?a) (depth ?q)
      = Some (\<lambda>t f. ascii ''Provide a brief overview of '' @ t @ ascii ''. Focus on: '' @ f)"
    by (simp add: MultiModelResearchAssistant_def research_prompts_def example_query_def)
  show ?thesis
    unfolding research_selected [OF sel tmpl]
    by (simp add: replying_def tool_request_def plain_answer_def research_globals_def
          search_papers_tool_def arg_str_def arg_int_def invoke_def
          build_result_def ResearchResult_def)
qed

theorem research_result_invariants_witness:
  "\<exists>r w'. research example_lib (research_globals example_lib)
       (MultiModelResearchAssistant
          [(ascii ''openai'',
            with_tools (replying (tool_request (ascii ''search_papers'') (ascii ''AI'') (ascii ''call_1''))
                                 (plain_answer (ascii ''ok''))))])
       (example_query (ascii ''quick'')) None example_world = (Inr r, w')
     \<and> key_findings r = [ascii ''Research completed'']
     \<and> sources_consulted r = [ascii ''search_papers'' @ ascii ''('' @ ascii ''{...}'' @ ascii '')'']
     \<and> confidence_score r = 0.85
     \<and> 0 \<le> confidence_score r \<and> confidence_score r \<le> 1"
proof -
  let ?first = "tool_request (ascii ''search_papers'') (ascii ''AI'') (ascii ''call_1'')"
  let ?m = "replying ?first (plain_answer (ascii ''ok''))"
  let ?a = "MultiModelResearchAssistant [(ascii ''openai'', with_tools ?m)]"
  let ?q = "example_query (ascii ''quick'')"
  from example_fallback_run obtain r w' where
    run: "research example_lib (research_globals example_lib) ?a ?q None example_world = (Inr r, w')"
    by blast
  have sel: "select_model (tool_models ?a) None = Inr (ascii ''openai'', ?m)"
    by (simp add: MultiModelResearchAssistant_def with_tools_def select_model_def named_model_def)
  from research_result_invariants [OF run]
  obtain used model template asked response and final :: ai_message where
    bounds: "0 \<le> confidence_score r" "confidence_score r \<le> 1" and
    sel': "select_model (tool_models ?a) None = Inr (used, model)" and
    asked: "asked = [HumanMessage (template (topic ?q) (focus_areas_str ?q))]" and
    first: "model asked (length (calls example_world)) = Inr response" and
    pin: "if tool_calls response = [] then final = response
          else \<exists>sources turn w2.
                 run_tool_calls example_lib (research_globals example_lib) (tool_calls response) []
                   (asked @ [AIMessage response])
                   (example_world\<lparr>calls := calls example_world @ [asked]\<rparr>) = (Inr (sources, turn), w2)
               \<and> model turn (Suc (length (calls example_world))) = Inr final" and
    sc: "sources_consulted r =
             (if tool_calls response = [] then [ascii ''Direct model knowledge'']
              else map (source_entry example_lib) (tool_calls response))" and
    cs: "confidence_score r = (if tool_calls response = [] then 0.75 else 0.85)" and
    kf: "key_findings r =
             (if extract_key_findings (content final) = [] then [ascii ''Research completed'']
              else extract_key_findings (content final))"
    by (elim conjE exE)
  from sel sel' have model: "model = ?m" by simp
  from first have response: "response = ?first"
    unfolding model asked by (simp add: replying_def)
  have requested: "tool_calls response \<noteq> []"
    unfolding response by (simp add: tool_request_def)
  from pin requested obtain sources turn w2 where
    loop: "run_tool_calls example_lib (research_globals example_lib) (tool_calls response) []
                   (asked @ [AIMessage response])
                   (example_world\<lparr>calls := calls example_world @ [asked]\<rparr>) = (Inr (sources, turn), w2)" and
    second: "model turn (Suc (length (calls example_world))) = Inr final"
    by auto
  from run_tool_calls_result [OF loop] have "1 < length turn"
    unfolding asked by auto
  with second have final: "final = plain_answer (ascii ''ok'')"
    unfolding model by (simp add: replying_def)
  have none: "extract_key_findings (content (plain_answer (ascii ''ok''))) = []"
    by (simp add: plain_answer_def extract_key_findings_def is_bullet_line_def ascii_def
          strip_def isspace_def hyphen_def bullet_def)
  from kf have 1: "key_findings r = [ascii ''Research completed'']"
    unfolding final none by simp
  from sc requested have 2: "sources_consulted r
      = [ascii ''search_papers'' @ ascii ''('' @ ascii ''{...}'' @ ascii '')'']"
    unfolding response by (simp add: tool_request_def source_entry_def example_lib_def)
  from cs requested have 3: "confidence_score r = 0.85" by simp
  from run 1 2 3 bounds show ?thesis by blast
qed

section \<open>The tool round trip\<close>






section \<open>Comparing models\<close>
















end
